theory Spec2Isabelle
  imports Complex_Main "HOL-Library.Log_Nat"
begin

section \<open>Data model (interfaces of useWebSocket.ts and GameCanvas.tsx)\<close>

text \<open>
  The server payloads are JSON objects. Numbers that the code treats as grid
  coordinates, scores and millisecond time stamps (\<^verbatim>\<open>Date.now()\<close>,
  \<^verbatim>\<open>endTime\<close>) are modelled as \<open>int\<close>; a nullable value
  \<^verbatim>\<open>T | null\<close> is \<open>T option\<close>. Field names follow the source, with a
  suffix where the plain name is taken in HOL or is shared by two interfaces.
\<close>

record point =
  x_seg :: int
  y_seg :: int

datatype effectType = speedBoost | slowDown

record active_effect =
  type_effect :: effectType
  endTime :: int

record snake =
  id_snake :: string
  body :: "point list"
  alive :: bool
  score :: int
  activeEffects :: "active_effect list"

datatype fruitType = apple | mango

record fruit =
  x_fruit :: int
  y_fruit :: int
  type_fruit :: fruitType

datatype status = Lobby | Playing | Finished

record game_state =
  status :: status
  snakes :: "snake list"
  food :: "fruit list"
  gameWidth :: int
  gameHeight :: int

record lobby_status =
  status_lobby :: string
  playerCount :: int
  players :: "string list"

record direction =
  dx :: int
  dy :: int

section \<open>Connection manager: the hook useWebSocket\<close>

text \<open>
  The socket object is reduced to what the hook does with it: the messages
  handed to \<^verbatim>\<open>socket.emit\<close>, in order. \<^verbatim>\<open>socketRef.current\<close> is
  \<open>None\<close> before the mount effect has run.
\<close>

datatype emit = Move direction | StartGame

record transport =
  emitted :: "emit list"

record ws =
  gameState :: "game_state option"
  lobbyStatus :: "lobby_status option"
  isConnected :: bool
  playerId :: "string option"
  socketRef :: "transport option"

definition ws_initial :: ws where
  "ws_initial = \<lparr>gameState = None, lobbyStatus = None, isConnected = False,
     playerId = None, socketRef = None\<rparr>"

text \<open>The mount effect stores the freshly created socket in \<^verbatim>\<open>socketRef\<close>.\<close>

definition ws_mount :: "ws \<Rightarrow> ws" where
  "ws_mount w = w\<lparr>socketRef := Some \<lparr>emitted = []\<rparr>\<rparr>"

text \<open>
  The events the hook listens to. \<open>Connect i\<close> carries the value of
  \<^verbatim>\<open>socket.id\<close> at the time of the event (\<open>None\<close> for \<^verbatim>\<open>undefined\<close>).
\<close>

datatype event =
    Connect "string option"
  | LobbyUpdate lobby_status
  | GameStateEv game_state
  | GameStarted
  | Disconnect
  | ConnectError

text \<open>\<^verbatim>\<open>s || null\<close> on a \<^verbatim>\<open>string | undefined\<close>: the empty string is falsy.\<close>

definition orNull :: "string option \<Rightarrow> string option" where
  "orNull s = (case s of None \<Rightarrow> None | Some v \<Rightarrow> if v = [] then None else Some v)"

fun ws_on :: "event \<Rightarrow> ws \<Rightarrow> ws" where
  "ws_on (Connect i) w = w\<lparr>isConnected := True, playerId := orNull i\<rparr>"
| "ws_on (LobbyUpdate l) w = w\<lparr>lobbyStatus := Some l\<rparr>"
| "ws_on (GameStateEv g) w = w\<lparr>gameState := Some g\<rparr>"
| "ws_on GameStarted w = w"
| "ws_on Disconnect w = w\<lparr>isConnected := False\<rparr>"
| "ws_on ConnectError w = w"

definition socket_emit :: "emit \<Rightarrow> transport \<Rightarrow> transport" where
  "socket_emit m s = s\<lparr>emitted := emitted s @ [m]\<rparr>"

definition sendMove :: "direction \<Rightarrow> ws \<Rightarrow> ws" where
  "sendMove d w =
     (case socketRef w of
        None \<Rightarrow> w
      | Some s \<Rightarrow> if isConnected w then w\<lparr>socketRef := Some (socket_emit (Move d) s)\<rparr> else w)"

definition startGame :: "ws \<Rightarrow> ws" where
  "startGame w =
     (case socketRef w of
        None \<Rightarrow> w
      | Some s \<Rightarrow> if isConnected w then w\<lparr>socketRef := Some (socket_emit StartGame s)\<rparr> else w)"

text \<open>Everything the transport has been asked to send so far.\<close>

definition outbox :: "ws \<Rightarrow> emit list" where
  "outbox w = (case socketRef w of None \<Rightarrow> [] | Some s \<Rightarrow> emitted s)"

fun ws_run :: "event list \<Rightarrow> ws \<Rightarrow> ws" where
  "ws_run [] w = w"
| "ws_run (e # es) w = ws_run es (ws_on e w)"

section \<open>Input controller: handleKeyDown of app/page.tsx and app/game/page.tsx\<close>

text \<open>
  Both pages hold \<^verbatim>\<open>showGame\<close> and \<^verbatim>\<open>lastKeyTime\<close> next to the hook's
  state, and their key handlers are the same text; the handler is defined once,
  on the fields the two pages share.
\<close>

record page =
  hook :: ws
  showGame :: bool
  lastKeyTime :: int

text \<open>
  \<^verbatim>\<open>event.key.toLowerCase()\<close>: on the letters A to Z. No character outside
  ASCII lower-cases to a letter of the eight key names below, so the switch sees
  the same matches.
\<close>

definition toLowerCase :: "string \<Rightarrow> string" where
  "toLowerCase k =
     map (\<lambda>c. let n = (of_char c :: nat) in if 65 \<le> n \<and> n \<le> 90 then char_of (n + 32) else c) k"

definition keyDirection :: "string \<Rightarrow> direction option" where
  "keyDirection k =
     (if k = ''arrowup'' \<or> k = ''w'' then Some \<lparr>dx = 0, dy = - 1\<rparr>
      else if k = ''arrowdown'' \<or> k = ''s'' then Some \<lparr>dx = 0, dy = 1\<rparr>
      else if k = ''arrowleft'' \<or> k = ''a'' then Some \<lparr>dx = - 1, dy = 0\<rparr>
      else if k = ''arrowright'' \<or> k = ''d'' then Some \<lparr>dx = 1, dy = 0\<rparr>
      else None)"

definition handleKeyDown :: "int \<Rightarrow> string \<Rightarrow> 'a page_scheme \<Rightarrow> 'a page_scheme" where
  "handleKeyDown now key p =
     (if now - lastKeyTime p < 50 then p
      else case keyDirection (toLowerCase key) of
             None \<Rightarrow> p
           | Some d \<Rightarrow> p\<lparr>hook := sendMove d (hook p), lastKeyTime := now\<rparr>)"

text \<open>The listener is installed only while \<^verbatim>\<open>showGame\<close> holds.\<close>

definition keydown :: "int \<Rightarrow> string \<Rightarrow> 'a page_scheme \<Rightarrow> 'a page_scheme" where
  "keydown now key p = (if showGame p then handleKeyDown now key p else p)"

section \<open>State reconciler: the effects of Home (app/page.tsx)\<close>

text \<open>
  \<open>timers\<close> holds the due times of the pending \<^verbatim>\<open>setTimeout\<close> callbacks; each
  of them, when it fires, calls \<^verbatim>\<open>setShowGame(false)\<close>. The source keeps no
  handle of a timeout and never calls \<^verbatim>\<open>clearTimeout\<close>.
\<close>

record home = page +
  activeEffect :: "active_effect option"
  timers :: "int list"

definition home_initial :: home where
  "home_initial = \<lparr>hook = ws_mount ws_initial, showGame = False, lastKeyTime = 0,
     activeEffect = None, timers = []\<rparr>"

text \<open>\<^verbatim>\<open>!playerId\<close> on a \<^verbatim>\<open>string | null\<close>.\<close>

definition falsy :: "string option \<Rightarrow> bool" where
  "falsy s = (case s of None \<Rightarrow> True | Some v \<Rightarrow> v = [])"

definition statusDep :: "'a page_scheme \<Rightarrow> status option" where
  "statusDep p = map_option status (gameState (hook p))"

text \<open>First effect (lines 16 to 20): \<^verbatim>\<open>if (gameState?.status === 'playing') setShowGame(true)\<close>.\<close>

definition statusEffect :: "home \<Rightarrow> home \<Rightarrow> home" where
  "statusEffect r h = (if statusDep r = Some Playing then h\<lparr>showGame := True\<rparr> else h)"

text \<open>
  Second effect (lines 23 to 41). An effect reads the values of the render that
  created it (\<open>r\<close>) and its state setters act on the current state (\<open>h\<close>).
\<close>

definition deathEffect :: "int \<Rightarrow> home \<Rightarrow> home \<Rightarrow> home" where
  "deathEffect now r h =
     (case gameState (hook r) of
        None \<Rightarrow> h
      | Some g \<Rightarrow>
          (if falsy (playerId (hook r)) \<or> \<not> showGame r then h
           else
             (let playerSnake = find (\<lambda>s. Some (id_snake s) = playerId (hook r)) (snakes g);
                  h1 = (case playerSnake of
                          None \<Rightarrow> h
                        | Some s \<Rightarrow> (if \<not> alive s then h\<lparr>timers := timers h @ [now + 1000]\<rparr> else h))
              in (case playerSnake of
                    None \<Rightarrow> h1\<lparr>activeEffect := None\<rparr>
                  | Some s \<Rightarrow>
                      (if alive s
                       then (case activeEffects s of
                               [] \<Rightarrow> h1\<lparr>activeEffect := None\<rparr>
                             | e # _ \<Rightarrow> h1\<lparr>activeEffect := Some e\<rparr>)
                       else h1\<lparr>activeEffect := None\<rparr>)))))"

text \<open>
  One event of the hook, as React commits it at time \<open>now\<close>. The page renders
  with the hook's new state; then the effects whose dependencies changed run in
  source order, each on the values of that render. A \<^verbatim>\<open>gameState\<close> message is a
  fresh object, so \<^verbatim>\<open>gameState?.snakes\<close> changes with every one. If the first
  effect changed \<^verbatim>\<open>showGame\<close> the page renders again and the second effect, which
  depends on \<^verbatim>\<open>showGame\<close>, runs again; neither effect writes a dependency of the
  other after that, so two rounds reach the fixed point.
\<close>

definition deathDepsChanged :: "event \<Rightarrow> home \<Rightarrow> home \<Rightarrow> bool" where
  "deathDepsChanged ev old r =
     ((case ev of GameStateEv _ \<Rightarrow> True | _ \<Rightarrow> False)
      \<or> statusDep old \<noteq> statusDep r
      \<or> playerId (hook old) \<noteq> playerId (hook r)
      \<or> showGame old \<noteq> showGame r)"

definition receive :: "int \<Rightarrow> event \<Rightarrow> home \<Rightarrow> home" where
  "receive now ev h =
     (let r = h\<lparr>hook := ws_on ev (hook h)\<rparr>;
          a = (if statusDep h \<noteq> statusDep r then statusEffect r r else r);
          b = (if deathDepsChanged ev h r then deathEffect now r a else a)
      in if showGame b \<noteq> showGame r then deathEffect now b b else b)"

text \<open>
  The clock reaches \<open>t\<close>: every timeout due by then has fired. Its callback sets
  \<^verbatim>\<open>showGame\<close> to false; the second effect then runs on a render without
  \<^verbatim>\<open>showGame\<close> and returns at its guard.
\<close>

definition advance :: "int \<Rightarrow> home \<Rightarrow> home" where
  "advance t h =
     (if filter (\<lambda>d. d \<le> t) (timers h) = [] then h
      else h\<lparr>showGame := False, timers := filter (\<lambda>d. t < d) (timers h)\<rparr>)"

text \<open>A trace of time-stamped hook events; timeouts due at an event's time fire before it.\<close>

fun run :: "(int \<times> event) list \<Rightarrow> home \<Rightarrow> home" where
  "run [] h = h"
| "run ((t, ev) # evs) h = run evs (receive t ev (advance t h))"

section \<open>Effect countdown presenter: EffectIndicator\<close>

text \<open>
  \<open>effect\<close> is the prop, \<open>timeLeft\<close> the component's state and \<open>interval\<close> tells
  whether the \<^verbatim>\<open>setInterval\<close> handle of the current effect is still active.
\<close>

record indicator =
  effect :: "active_effect option"
  timeLeft :: int
  interval :: bool

definition indicator_initial :: "active_effect option \<Rightarrow> indicator" where
  "indicator_initial e = \<lparr>effect = e, timeLeft = 0, interval = False\<rparr>"

text \<open>
  The effect of lines 201 to 219, run at mount and whenever the prop changes:
  the cleanup of the previous run clears its interval, then the body runs.
\<close>

definition setEffect :: "active_effect option \<Rightarrow> indicator \<Rightarrow> indicator" where
  "setEffect e st =
     (case e of
        None \<Rightarrow> st\<lparr>effect := None, timeLeft := 0, interval := False\<rparr>
      | Some _ \<Rightarrow> st\<lparr>effect := e, interval := True\<rparr>)"

text \<open>The interval callback, called at time \<open>now\<close>.\<close>

definition updateTimer :: "int \<Rightarrow> indicator \<Rightarrow> indicator" where
  "updateTimer now st =
     (case effect st of
        None \<Rightarrow> st
      | Some e \<Rightarrow>
          if \<not> interval st then st
          else
            let remaining = max 0 (endTime e - now);
                remainingSeconds = \<lceil>(of_int remaining :: rat) / 1000\<rceil>
            in st\<lparr>timeLeft := remainingSeconds, interval := \<not> remaining \<le> 0\<rparr>)"

text \<open>
  The percentage is computed on JavaScript numbers, that is IEEE 754 binary64
  with round to nearest, ties to even. A finite double is modelled by the
  rational it denotes, and an arithmetic operation by the rounding of its exact
  result: \<open>toDouble x\<close> is the double nearest to \<open>x\<close>, found by scaling
  \<open>\<bar>x\<bar>\<close> with the power of two that puts it between \<open>2^52\<close> and \<open>2^53\<close>
  and rounding to an integer there. \<open>ilog2 x\<close> is the binary exponent of a
  positive \<open>x\<close>. Overflow and subnormal numbers are left out: the
  magnitudes that occur (a positive count of seconds divided by 10, then
  multiplied by 100) are far inside the normal range.
\<close>

definition ilog2 :: "rat \<Rightarrow> int" where
  "ilog2 x = (if 1 \<le> x then int (floorlog 2 (nat \<lfloor>x\<rfloor>)) - 1
              else - int (floorlog 2 (nat (\<lceil>1 / x\<rceil> - 1))))"

definition roundHalfEven :: "rat \<Rightarrow> int" where
  "roundHalfEven m =
     (let f = \<lfloor>m\<rfloor>; d = m - of_int f
      in if d < 1 / 2 then f else if 1 / 2 < d then f + 1 else if even f then f else f + 1)"

definition toDouble :: "rat \<Rightarrow> rat" where
  "toDouble x =
     (if x = 0 then 0
      else let ulp = 2 powi (ilog2 \<bar>x\<bar> - 52)
           in sgn x * of_int (roundHalfEven (\<bar>x\<bar> / ulp)) * ulp)"

text \<open>
  What the component returns: \<open>None\<close> for \<^verbatim>\<open>null\<close>, else the values the markup
  shows. The two labels differ only by the kind of effect, kept as
  \<open>isSpeedBoost\<close>. \<open>percentage\<close> is \<^verbatim>\<open>(timeLeft / 10) * 100\<close>, a division and
  a multiplication of doubles.
\<close>

record indicator_view =
  isSpeedBoost :: bool
  description :: string
  bgGradient :: string
  seconds :: int
  percentage :: rat

definition render_indicator :: "indicator \<Rightarrow> indicator_view option" where
  "render_indicator st =
     (case effect st of
        None \<Rightarrow> None
      | Some e \<Rightarrow>
          if timeLeft st \<le> 0 then None
          else Some \<lparr>isSpeedBoost = (type_effect e = speedBoost),
                 description = (if type_effect e = speedBoost then ''+50% velocidade'' else ''-50% velocidade''),
                 bgGradient = (if type_effect e = speedBoost
                               then ''linear-gradient(to right, #f97316, #eab308)''
                               else ''linear-gradient(to right, #a855f7, #6366f1)''),
                 seconds = timeLeft st,
                 percentage = toDouble (toDouble (of_int (timeLeft st) / 10) * 100)\<rparr>)"

section \<open>Render engine: GameCanvas\<close>

text \<open>
  The 2D context is its drawing state together with the list of primitives it
  has painted, oldest first. A painted primitive records the styles that were
  current when it was issued, which is what decides its pixels. The emoji and the
  score line are kept symbolic: \<open>FruitEmoji t\<close> is the emoji of fruit type
  \<open>t\<close>, and \<open>ScoreLine p n a\<close> is the template string with the own-player prefix
  when \<open>p\<close>, score \<open>n\<close> and the alive mark when \<open>a\<close>.
\<close>

datatype path_cmd = MoveTo int int | LineTo int int

datatype canvas_text = FruitEmoji fruitType | ScoreLine bool int bool

datatype paint =
    FillRect string int int int int
  | StrokeRect string rat int int int int
  | StrokePath string rat "path_cmd list"
  | FillText string string string string canvas_text int int

record ctx =
  fillStyle :: string
  strokeStyle :: string
  lineWidth :: rat
  font :: string
  textAlign :: string
  textBaseline :: string
  path :: "path_cmd list"
  painted :: "paint list"

definition fillRect :: "int \<Rightarrow> int \<Rightarrow> int \<Rightarrow> int \<Rightarrow> ctx \<Rightarrow> ctx" where
  "fillRect x y w h c = c\<lparr>painted := painted c @ [FillRect (fillStyle c) x y w h]\<rparr>"

definition strokeRect :: "int \<Rightarrow> int \<Rightarrow> int \<Rightarrow> int \<Rightarrow> ctx \<Rightarrow> ctx" where
  "strokeRect x y w h c =
     c\<lparr>painted := painted c @ [StrokeRect (strokeStyle c) (lineWidth c) x y w h]\<rparr>"

definition beginPath :: "ctx \<Rightarrow> ctx" where
  "beginPath c = c\<lparr>path := []\<rparr>"

definition moveTo :: "int \<Rightarrow> int \<Rightarrow> ctx \<Rightarrow> ctx" where
  "moveTo x y c = c\<lparr>path := path c @ [MoveTo x y]\<rparr>"

definition lineTo :: "int \<Rightarrow> int \<Rightarrow> ctx \<Rightarrow> ctx" where
  "lineTo x y c = c\<lparr>path := path c @ [LineTo x y]\<rparr>"

definition stroke :: "ctx \<Rightarrow> ctx" where
  "stroke c = c\<lparr>painted := painted c @ [StrokePath (strokeStyle c) (lineWidth c) (path c)]\<rparr>"

definition fillText :: "canvas_text \<Rightarrow> int \<Rightarrow> int \<Rightarrow> ctx \<Rightarrow> ctx" where
  "fillText t x y c =
     c\<lparr>painted := painted c @ [FillText (fillStyle c) (font c) (textAlign c) (textBaseline c) t x y]\<rparr>"

definition CELL_SIZE :: int where
  "CELL_SIZE = 12"

text \<open>\<^verbatim>\<open>gameState?.gameWidth || 100\<close>: zero is falsy.\<close>

definition GAME_WIDTH :: "game_state \<Rightarrow> int" where
  "GAME_WIDTH g = (if gameWidth g = 0 then 100 else gameWidth g)"

definition GAME_HEIGHT :: "game_state \<Rightarrow> int" where
  "GAME_HEIGHT g = (if gameHeight g = 0 then 60 else gameHeight g)"

definition CANVAS_WIDTH :: "game_state \<Rightarrow> int" where
  "CANVAS_WIDTH g = GAME_WIDTH g * CELL_SIZE"

definition CANVAS_HEIGHT :: "game_state \<Rightarrow> int" where
  "CANVAS_HEIGHT g = GAME_HEIGHT g * CELL_SIZE"

definition COLORS_background :: string where "COLORS_background = ''#1a1a1a''"
definition COLORS_grid :: string where "COLORS_grid = ''#444''"
definition COLORS_playerSnake :: string where "COLORS_playerSnake = ''#4CAF50''"
definition COLORS_otherSnake :: string where "COLORS_otherSnake = ''#2196F3''"
definition COLORS_dead :: string where "COLORS_dead = ''#666''"
definition COLORS_text :: string where "COLORS_text = ''#FFF''"

text \<open>The two grid loops, \<^verbatim>\<open>for (let i = 0; i <= GAME_WIDTH; i++)\<close> and its twin.\<close>

function gridColumns :: "game_state \<Rightarrow> int \<Rightarrow> ctx \<Rightarrow> ctx" where
  "gridColumns g i c =
     (if i \<le> GAME_WIDTH g
      then gridColumns g (i + 1)
             (stroke (lineTo (i * CELL_SIZE) (CANVAS_HEIGHT g) (moveTo (i * CELL_SIZE) 0 (beginPath c))))
      else c)"
  by pat_completeness auto
termination
  by (relation "measure (\<lambda>(g, i, c). nat (GAME_WIDTH g + 1 - i))") auto

function gridRows :: "game_state \<Rightarrow> int \<Rightarrow> ctx \<Rightarrow> ctx" where
  "gridRows g i c =
     (if i \<le> GAME_HEIGHT g
      then gridRows g (i + 1)
             (stroke (lineTo (CANVAS_WIDTH g) (i * CELL_SIZE) (moveTo 0 (i * CELL_SIZE) (beginPath c))))
      else c)"
  by pat_completeness auto
termination
  by (relation "measure (\<lambda>(g, i, c). nat (GAME_HEIGHT g + 1 - i))") auto

definition drawSegment :: "snake \<Rightarrow> string \<Rightarrow> nat \<times> point \<Rightarrow> ctx \<Rightarrow> ctx" where
  "drawSegment sn currentColor is c =
     (let index = fst is; segment = snd is;
          x = x_seg segment * CELL_SIZE;
          y = y_seg segment * CELL_SIZE;
          c1 = fillRect (x + 1) (y + 1) (CELL_SIZE - 2) (CELL_SIZE - 2) (c\<lparr>fillStyle := currentColor\<rparr>)
      in if index = 0 \<and> alive sn
         then strokeRect (x + 1) (y + 1) (CELL_SIZE - 2) (CELL_SIZE - 2)
                (c1\<lparr>strokeStyle := ''rgba(0,0,0,0.3)'', lineWidth := 2\<rparr>)
         else c1)"

definition drawSnake :: "snake \<Rightarrow> bool \<Rightarrow> ctx \<Rightarrow> ctx" where
  "drawSnake sn isPlayer c =
     (let color = (if isPlayer then COLORS_playerSnake else COLORS_otherSnake);
          deadColor = COLORS_dead;
          currentColor = (if alive sn then color else deadColor)
      in fold (drawSegment sn currentColor) (enumerate 0 (body sn)) c)"

definition drawFood :: "fruit \<Rightarrow> ctx \<Rightarrow> ctx" where
  "drawFood f c =
     (let x = x_fruit f * CELL_SIZE + CELL_SIZE div 2;
          y = y_fruit f * CELL_SIZE + CELL_SIZE div 2
      in fillText (FruitEmoji (type_fruit f)) x y
           (c\<lparr>font := ''bold 8px Arial'', textAlign := ''center'', textBaseline := ''middle''\<rparr>))"

text \<open>One round of the \<^verbatim>\<open>forEach\<close> of \<^verbatim>\<open>drawUI\<close>; \<^verbatim>\<open>yOffset\<close> is carried along.\<close>

definition drawScore :: "string option \<Rightarrow> snake \<Rightarrow> ctx \<times> int \<Rightarrow> ctx \<times> int" where
  "drawScore pid sn cy =
     (let c = fst cy; yOffset = snd cy;
          isPlayer = (Some (id_snake sn) = pid)
      in (fillText (ScoreLine isPlayer (score sn) (alive sn)) 10 yOffset
            (c\<lparr>fillStyle := (if isPlayer then COLORS_playerSnake else COLORS_otherSnake)\<rparr>),
          yOffset + 25))"

definition drawUI :: "snake list \<Rightarrow> string option \<Rightarrow> ctx \<Rightarrow> ctx" where
  "drawUI sns pid c =
     fst (fold (drawScore pid) sns
            (c\<lparr>fillStyle := COLORS_text, font := ''bold 14px Arial'', textAlign := ''left''\<rparr>, 20))"

text \<open>The body of the render effect once canvas, state and context are there.\<close>

definition draw :: "game_state \<Rightarrow> string option \<Rightarrow> ctx \<Rightarrow> ctx" where
  "draw g pid c =
     (let c1 = fillRect 0 0 (CANVAS_WIDTH g) (CANVAS_HEIGHT g) (c\<lparr>fillStyle := COLORS_background\<rparr>);
          c2 = gridColumns g 0 (c1\<lparr>strokeStyle := COLORS_grid, lineWidth := 1 / 2\<rparr>);
          c3 = gridRows g 0 c2;
          c4 = fold drawFood (food g) c3;
          c5 = fold (\<lambda>sn. drawSnake sn (Some (id_snake sn) = pid)) (snakes g) c4
      in drawUI (snakes g) pid c5)"

text \<open>
  \<^verbatim>\<open>canvasRef.current\<close> is \<open>None\<close> while the element is not mounted, and
  \<^verbatim>\<open>getContext('2d')\<close> may return \<^verbatim>\<open>null\<close>. The effect returns nothing and
  raises nowhere; what it leaves behind is the canvas.
\<close>

record canvas =
  getContext :: "ctx option"

definition render :: "canvas option \<Rightarrow> game_state option \<Rightarrow> string option \<Rightarrow> canvas option" where
  "render canvasRef gs pid =
     (case canvasRef of
        None \<Rightarrow> canvasRef
      | Some cv \<Rightarrow>
          (case gs of
             None \<Rightarrow> canvasRef
           | Some g \<Rightarrow>
               (case getContext cv of
                  None \<Rightarrow> canvasRef
                | Some c \<Rightarrow> Some (cv\<lparr>getContext := Some (draw g pid c)\<rparr>))))"

declare gridColumns.simps [simp del]
declare gridRows.simps [simp del]

section \<open>Auxiliary definitions for the statements\<close>

text \<open>
  The primitives one snake adds to the canvas, written as a list: one filled
  square per body segment, in body order, followed by an outlined square for
  the segment of index 0 of a living snake.
\<close>

definition snake_paints :: "string option \<Rightarrow> snake \<Rightarrow> paint list" where
  "snake_paints localId sn =
     concat (map (\<lambda>(index, segment).
         FillRect (if \<not> alive sn then COLORS_dead
                   else if Some (id_snake sn) = localId then COLORS_playerSnake
                   else COLORS_otherSnake)
             (x_seg segment * 12 + 1) (y_seg segment * 12 + 1) 10 10
           # (if index = 0 \<and> alive sn
              then [StrokeRect ''rgba(0,0,0,0.3)'' 2 (x_seg segment * 12 + 1) (y_seg segment * 12 + 1) 10 10]
              else []))
       (enumerate 0 (body sn)))"

text \<open>
  Invariant of the page between a death snapshot and the firing of its
  timeout: the game is showing, the local id is \<open>pid\<close>, a timeout is due at
  \<open>due\<close> and none is due earlier.
\<close>

definition revert_pending :: "string \<Rightarrow> int \<Rightarrow> home \<Rightarrow> bool" where
  "revert_pending pid due h =
     (showGame h \<and> playerId (hook h) = Some pid \<and> due \<in> set (timers h)
      \<and> list_all (\<lambda>d. due \<le> d) (timers h))"

text \<open>Concrete inputs for the examples: a one-snake snapshot of player \<open>''p''\<close>.\<close>

definition example_snake :: "bool \<Rightarrow> active_effect list \<Rightarrow> snake" where
  "example_snake a es =
     \<lparr>id_snake = ''p'', body = [\<lparr>x_seg = 3, y_seg = 4\<rparr>], alive = a, score = 7, activeEffects = es\<rparr>"

definition example_snapshot :: "bool \<Rightarrow> active_effect list \<Rightarrow> game_state" where
  "example_snapshot a es =
     \<lparr>status = Playing, snakes = [example_snake a es],
      food = [\<lparr>x_fruit = 0, y_fruit = 1, type_fruit = mango\<rparr>], gameWidth = 1, gameHeight = 1\<rparr>"

definition example_boost :: active_effect where
  "example_boost = \<lparr>type_effect = speedBoost, endTime = 5000\<rparr>"

text \<open>The page after the socket connected as \<open>''p''\<close> and a first playing snapshot arrived.\<close>

definition example_playing :: home where
  "example_playing =
     run [(0, Connect (Some ''p'')), (0, GameStateEv (example_snapshot True []))] home_initial"

definition example_page :: page where
  "example_page = \<lparr>hook = ws_on (Connect (Some ''p'')) (ws_mount ws_initial), showGame = True,
     lastKeyTime = 1000\<rparr>"

text \<open>A fresh 2D context with the default styles of the canvas API.\<close>

definition example_ctx :: ctx where
  "example_ctx = \<lparr>fillStyle = ''#000000'', strokeStyle = ''#000000'', lineWidth = 1,
     font = ''10px sans-serif'', textAlign = ''start'', textBaseline = ''alphabetic'',
     path = [], painted = []\<rparr>"

section \<open>Lemmas\<close>

subsection \<open>Connection manager\<close>

lemma outbox_ws_on: "outbox (ws_on ev w) = outbox w"
  by (cases ev) (simp_all add: outbox_def)

lemma outbox_ws_run: "outbox (ws_run es w) = outbox w"
  by (induction es arbitrary: w) (simp_all add: outbox_ws_on)

subsection \<open>The effects of Home, field by field\<close>

lemma deathEffect_showGame: "showGame (deathEffect now r h) = showGame h"
  by (simp add: deathEffect_def Let_def split: option.splits list.splits)

lemma deathEffect_hook: "hook (deathEffect now r h) = hook h"
  by (simp add: deathEffect_def Let_def split: option.splits list.splits)

lemma deathEffect_timers:
  "timers (deathEffect now r h) =
     (case gameState (hook r) of
        None \<Rightarrow> timers h
      | Some g \<Rightarrow>
          if falsy (playerId (hook r)) \<or> \<not> showGame r then timers h
          else (case find (\<lambda>s. Some (id_snake s) = playerId (hook r)) (snakes g) of
                  None \<Rightarrow> timers h
                | Some s \<Rightarrow> if alive s then timers h else timers h @ [now + 1000]))"
  by (simp add: deathEffect_def Let_def split: option.splits list.splits)

lemma deathEffect_activeEffect:
  "activeEffect (deathEffect now r h) =
     (case gameState (hook r) of
        None \<Rightarrow> activeEffect h
      | Some g \<Rightarrow>
          if falsy (playerId (hook r)) \<or> \<not> showGame r then activeEffect h
          else (case find (\<lambda>s. Some (id_snake s) = playerId (hook r)) (snakes g) of
                  None \<Rightarrow> None
                | Some s \<Rightarrow> if alive s \<and> activeEffects s \<noteq> [] then Some (hd (activeEffects s)) else None))"
  by (simp add: deathEffect_def Let_def split: option.splits list.splits)

lemma statusEffect_fields:
  "hook (statusEffect r h) = hook h"
  "timers (statusEffect r h) = timers h"
  "activeEffect (statusEffect r h) = activeEffect h"
  "showGame (statusEffect r h) = (showGame h \<or> statusDep r = Some Playing)"
  by (simp_all add: statusEffect_def)

lemma receive_hook: "hook (receive now ev h) = ws_on ev (hook h)"
  by (simp add: receive_def Let_def deathEffect_hook statusEffect_fields)

lemma receive_showGame:
  "showGame (receive now ev h) =
     (showGame h \<or> (statusDep h \<noteq> statusDep (h\<lparr>hook := ws_on ev (hook h)\<rparr>)
                    \<and> statusDep (h\<lparr>hook := ws_on ev (hook h)\<rparr>) = Some Playing))"
  by (simp add: receive_def Let_def deathEffect_showGame statusEffect_fields)

lemma receive_timers_snapshot:
  "timers (receive now (GameStateEv g) h) =
     (if showGame (receive now (GameStateEv g) h) \<and> \<not> falsy (playerId (hook h))
      then (case find (\<lambda>s. Some (id_snake s) = playerId (hook h)) (snakes g) of
              None \<Rightarrow> timers h
            | Some s \<Rightarrow> if alive s then timers h else timers h @ [now + 1000])
      else timers h)"
  by (simp add: receive_def Let_def deathEffect_showGame deathEffect_hook deathEffect_timers
        statusEffect_fields deathDepsChanged_def statusDep_def split: option.splits)

lemma receive_activeEffect_snapshot:
  "activeEffect (receive now (GameStateEv g) h) =
     (if showGame (receive now (GameStateEv g) h) \<and> \<not> falsy (playerId (hook h))
      then (case find (\<lambda>s. Some (id_snake s) = playerId (hook h)) (snakes g) of
              None \<Rightarrow> None
            | Some s \<Rightarrow> if alive s \<and> activeEffects s \<noteq> [] then Some (hd (activeEffects s)) else None)
      else activeEffect h)"
  by (simp add: receive_def Let_def deathEffect_showGame deathEffect_hook deathEffect_activeEffect
        statusEffect_fields deathDepsChanged_def statusDep_def)

subsection \<open>Timeouts\<close>

lemma advance_idle: "\<forall>d \<in> set (timers h). t < d \<Longrightarrow> advance t h = h"
  by (simp add: advance_def filter_empty_conv not_le)

lemma advance_fires: "d \<in> set (timers h) \<Longrightarrow> d \<le> t \<Longrightarrow> \<not> showGame (advance t h)"
  by (auto simp: advance_def filter_empty_conv)

lemma revert_pending_step:
  assumes "revert_pending pid due h" and "due \<le> t' + 1000" and "t' < due"
  shows "revert_pending pid due (receive t' (GameStateEv g') (advance t' h))"
proof -
  from assms have idle: "advance t' h = h"
    by (intro advance_idle) (auto simp: revert_pending_def list_all_iff)
  from assms(1) have sg: "showGame (receive t' (GameStateEv g') h)"
    by (simp add: receive_showGame revert_pending_def)
  show ?thesis
    using assms sg unfolding idle revert_pending_def
    by (auto simp: receive_hook receive_timers_snapshot list_all_iff split: option.splits)
qed

lemma revert_pending_run:
  assumes "revert_pending pid due h"
    and "list_all (\<lambda>(t', g'). due \<le> t' + 1000 \<and> t' < due) later"
  shows "revert_pending pid due (run (map (\<lambda>(t', g'). (t', GameStateEv g')) later) h)"
  using assms
proof (induction later arbitrary: h)
  case Nil
  then show ?case by simp
next
  case (Cons a later)
  obtain t' g' where a: "a = (t', g')" by (cases a)
  from Cons.prems have "revert_pending pid due (receive t' (GameStateEv g') (advance t' h))"
    by (intro revert_pending_step) (auto simp: a)
  with Cons show ?case by (simp add: a)
qed

lemma revert_pending_start:
  assumes "showGame h" and "playerId (hook h) = Some pid" and "pid \<noteq> []"
    and "list_all (\<lambda>d. t + 1000 \<le> d) (timers h)"
    and "find (\<lambda>s. Some (id_snake s) = Some pid) (snakes g) = Some sn" and "\<not> alive sn"
  shows "revert_pending pid (t + 1000) (receive t (GameStateEv g) (advance t h))"
proof -
  from assms have idle: "advance t h = h"
    by (intro advance_idle) (auto simp: list_all_iff)
  from assms(1) have sg: "showGame (receive t (GameStateEv g) h)"
    by (simp add: receive_showGame)
  show ?thesis
    using assms sg unfolding idle revert_pending_def
    by (auto simp: receive_hook receive_timers_snapshot list_all_iff falsy_def)
qed

subsection \<open>Effect indicator\<close>



lemma remaining_seconds_pos:
  "0 < \<lceil>(of_int (max 0 (e - now)) :: rat) / 1000\<rceil> \<longleftrightarrow> now < e"
proof -
  have "(0::rat) < of_int (e - now) / 1000 \<longleftrightarrow> now < e"
    by simp
  then show ?thesis
    by (auto simp: max_def less_ceiling_iff)
qed

subsection \<open>Rounding to double precision\<close>

lemma roundHalfEven_err: "\<bar>of_int (roundHalfEven m) - m\<bar> \<le> 1 / 2"
proof -
  have "of_int \<lfloor>m\<rfloor> \<le> m" "m < of_int \<lfloor>m\<rfloor> + 1"
    by linarith+
  then show ?thesis
    unfolding roundHalfEven_def Let_def by auto
qed

lemma ilog2_bounds:
  assumes "0 < x"
  shows "2 powi ilog2 x \<le> x" and "x < 2 powi (ilog2 x + 1)"
proof -
  show "2 powi ilog2 x \<le> x"
  proof (cases "1 \<le> x")
    case True
    define n where "n = nat \<lfloor>x\<rfloor>"
    have n: "0 < n" "rat_of_nat n \<le> x"
      using True by (simp_all add: n_def le_floor_iff)
    have "2 ^ (floorlog 2 n - 1) \<le> n"
      using floorlog_bounds [of n 2] n by simp
    then have "(2::rat) ^ (floorlog 2 n - 1) \<le> of_nat n"
      by (metis of_nat_le_iff of_nat_numeral of_nat_power)
    with n(2) have "(2::rat) ^ (floorlog 2 n - 1) \<le> x"
      by linarith
    moreover have "0 < floorlog 2 n"
      using n by (simp add: floorlog_def)
    then have "nat (int (floorlog 2 n) - 1) = floorlog 2 n - 1"
      by simp
    ultimately show ?thesis
      using True by (simp add: ilog2_def n_def [symmetric] power_int_def)
  next
    case False
    define n where "n = nat (\<lceil>1 / x\<rceil> - 1)"
    from False assms have y: "1 < 1 / x" by simp
    then have c: "2 \<le> \<lceil>1 / x\<rceil>" by linarith
    have n: "0 < n" "int n = \<lceil>1 / x\<rceil> - 1"
      unfolding n_def using c by linarith+
    have "n < 2 ^ floorlog 2 n"
      using floorlog_bounds [of n 2] n by simp
    then have "int n < 2 ^ floorlog 2 n"
      by (metis of_nat_less_iff of_nat_numeral of_nat_power)
    then have "\<lceil>1 / x\<rceil> \<le> 2 ^ floorlog 2 n"
      using n by linarith
    then have "1 / x \<le> 2 ^ floorlog 2 n"
      by (simp add: ceiling_le_iff)
    then have "1 / 2 ^ floorlog 2 n \<le> x"
      using assms by (simp add: field_simps)
    moreover have "0 < floorlog 2 n"
      using n by (simp add: floorlog_def)
    ultimately show ?thesis
      using False by (simp add: ilog2_def n_def [symmetric] power_int_def inverse_eq_divide power_one_over)
  qed
  show "x < 2 powi (ilog2 x + 1)"
  proof (cases "1 \<le> x")
    case True
    define n where "n = nat \<lfloor>x\<rfloor>"
    have n: "0 < n" "\<lfloor>x\<rfloor> = int n"
      using True by (simp_all add: n_def le_floor_iff)
    have "n < 2 ^ floorlog 2 n"
      using floorlog_bounds [of n 2] n by simp
    then have "int n < 2 ^ floorlog 2 n"
      by (metis of_nat_less_iff of_nat_numeral of_nat_power)
    then have "\<lfloor>x\<rfloor> < 2 ^ floorlog 2 n"
      by (simp add: n)
    then have "x < 2 ^ floorlog 2 n"
      by (simp add: floor_less_iff)
    then show ?thesis
      using True by (simp add: ilog2_def n_def [symmetric] power_int_def)
  next
    case False
    define n where "n = nat (\<lceil>1 / x\<rceil> - 1)"
    from False assms have y: "1 < 1 / x" by simp
    then have c: "2 \<le> \<lceil>1 / x\<rceil>" by linarith
    have n: "0 < n" "int n = \<lceil>1 / x\<rceil> - 1"
      unfolding n_def using c by linarith+
    have k: "0 < floorlog 2 n"
      using n by (simp add: floorlog_def)
    have "2 ^ (floorlog 2 n - 1) \<le> n"
      using floorlog_bounds [of n 2] n by simp
    then have "(2::int) ^ (floorlog 2 n - 1) \<le> int n"
      by (metis of_nat_le_iff of_nat_numeral of_nat_power)
    then have "(2::int) ^ (floorlog 2 n - 1) < \<lceil>1 / x\<rceil>"
      using n by simp
    then have "2 ^ (floorlog 2 n - 1) < 1 / x"
      by (simp add: less_ceiling_iff)
    then have "x < 1 / 2 ^ (floorlog 2 n - 1)"
      using assms by (simp add: field_simps)
    moreover have "nat (int (floorlog 2 n) - 1) = floorlog 2 n - 1"
      by simp
    ultimately show ?thesis
      using False k
      by (simp add: ilog2_def n_def [symmetric] power_int_def inverse_eq_divide power_one_over)
  qed
qed

lemma toDouble_err: "\<bar>toDouble x - x\<bar> \<le> \<bar>x\<bar> / 2 ^ 53"
proof (cases "x = 0")
  case True
  then show ?thesis by (simp add: toDouble_def)
next
  case False
  define a where "a = \<bar>x\<bar>"
  define ulp :: rat where "ulp = 2 powi (ilog2 a - 52)"
  define r where "r = roundHalfEven (a / ulp)"
  have a: "0 < a" using False by (simp add: a_def)
  have ulp: "0 < ulp" by (simp add: ulp_def)
  have "ulp = 2 powi ilog2 a / 2 ^ 52"
    by (simp add: ulp_def power_int_diff)
  with ilog2_bounds(1) [OF a] have le: "ulp * 2 ^ 52 \<le> a"
    by simp
  have td: "toDouble x = sgn x * (of_int r * ulp)"
    using False by (simp add: toDouble_def r_def ulp_def a_def Let_def)
  have x: "x = sgn x * a"
    by (simp add: a_def sgn_mult_abs)
  have "\<bar>toDouble x - x\<bar> = \<bar>sgn x * (of_int r * ulp - a)\<bar>"
    by (subst (2) x) (simp add: td algebra_simps)
  also have "\<dots> = \<bar>of_int r * ulp - a\<bar>"
    using False by (simp add: abs_mult abs_sgn_eq)
  also have "of_int r * ulp - a = (of_int r - a / ulp) * ulp"
    using ulp by (simp add: field_simps)
  also have "\<bar>(of_int r - a / ulp) * ulp\<bar> = \<bar>of_int r - a / ulp\<bar> * ulp"
    using ulp by (subst abs_mult) simp
  also have "\<dots> \<le> 1 / 2 * ulp"
    using roundHalfEven_err [of "a / ulp"] ulp unfolding r_def
    by (intro mult_right_mono) simp_all
  also have "\<dots> \<le> a / 2 ^ 53"
    using le by simp
  finally show ?thesis by (simp add: a_def)
qed

lemma percentage_err:
  assumes "0 < n"
  shows "\<bar>toDouble (toDouble (of_int n / 10) * 100) - of_int n / 10 * 100\<bar>
      \<le> of_int n / 10 * 100 / 2 ^ 51"
proof -
  define q :: rat where "q = of_int n / 10"
  define y where "y = toDouble q"
  have q: "0 < q" using assms by (simp add: q_def)
  have e1: "\<bar>y - q\<bar> \<le> q / 2 ^ 53"
    using toDouble_err [of q] q by (simp add: y_def)
  then have y: "\<bar>y\<bar> \<le> q + q / 2 ^ 53"
    using q by linarith
  have e2: "\<bar>toDouble (y * 100) - y * 100\<bar> \<le> \<bar>y\<bar> * 100 / 2 ^ 53"
    using toDouble_err [of "y * 100"] by (simp add: abs_mult)
  have "toDouble (y * 100) - q * 100 = (toDouble (y * 100) - y * 100) + (y - q) * 100"
    by (simp add: algebra_simps)
  moreover have "\<bar>(toDouble (y * 100) - y * 100) + (y - q) * 100\<bar>
      \<le> \<bar>toDouble (y * 100) - y * 100\<bar> + \<bar>(y - q) * 100\<bar>"
    by (rule abs_triangle_ineq)
  moreover have "\<bar>(y - q) * 100\<bar> = \<bar>y - q\<bar> * 100"
    by (subst abs_mult) simp
  ultimately have t: "\<bar>toDouble (y * 100) - q * 100\<bar>
      \<le> \<bar>toDouble (y * 100) - y * 100\<bar> + \<bar>y - q\<bar> * 100"
    by simp
  have b1: "\<bar>y - q\<bar> * 100 \<le> q / 2 ^ 53 * 100"
    using e1 by simp
  have "\<bar>y\<bar> * 100 / 2 ^ 53 \<le> (q + q / 2 ^ 53) * 100 / 2 ^ 53"
    using y by (intro divide_right_mono mult_right_mono) simp_all
  with e2 have b2: "\<bar>toDouble (y * 100) - y * 100\<bar> \<le> (q + q / 2 ^ 53) * 100 / 2 ^ 53"
    by linarith
  have b3: "(q + q / 2 ^ 53) * 100 / 2 ^ 53 + q / 2 ^ 53 * 100 \<le> q * 100 / 2 ^ 51"
    using q by (simp add: field_simps)
  from t b1 b2 b3 have "\<bar>toDouble (y * 100) - q * 100\<bar> \<le> q * 100 / 2 ^ 51"
    by linarith
  then show ?thesis
    unfolding y_def q_def .
qed

subsection \<open>Canvas: what each drawing routine paints\<close>

lemma drawSegment_painted:
  "painted (drawSegment sn col (index, segment) c) =
     painted c @ FillRect col (x_seg segment * 12 + 1) (y_seg segment * 12 + 1) 10 10
       # (if index = 0 \<and> alive sn
          then [StrokeRect ''rgba(0,0,0,0.3)'' 2 (x_seg segment * 12 + 1) (y_seg segment * 12 + 1) 10 10]
          else [])"
  by (simp add: drawSegment_def Let_def fillRect_def strokeRect_def CELL_SIZE_def)

lemma drawSegment_text:
  "font (drawSegment sn col is c) = font c"
  "textAlign (drawSegment sn col is c) = textAlign c"
  "textBaseline (drawSegment sn col is c) = textBaseline c"
  by (simp_all add: drawSegment_def Let_def fillRect_def strokeRect_def)

lemma fold_drawSegment_painted:
  "painted (fold (drawSegment sn col) iss c) =
     painted c @ concat (map (\<lambda>(index, segment).
       FillRect col (x_seg segment * 12 + 1) (y_seg segment * 12 + 1) 10 10
       # (if index = 0 \<and> alive sn
          then [StrokeRect ''rgba(0,0,0,0.3)'' 2 (x_seg segment * 12 + 1) (y_seg segment * 12 + 1) 10 10]
          else [])) iss)"
proof (induction iss arbitrary: c)
  case Nil
  show ?case by simp
next
  case (Cons a iss)
  obtain index segment where a: "a = (index, segment)" by (cases a)
  show ?case by (simp add: a Cons.IH drawSegment_painted)
qed

lemma fold_drawSegment_text:
  "font (fold (drawSegment sn col) iss c) = font c"
  "textAlign (fold (drawSegment sn col) iss c) = textAlign c"
  "textBaseline (fold (drawSegment sn col) iss c) = textBaseline c"
  by (induction iss arbitrary: c) (simp_all add: drawSegment_text)

lemma drawSnake_painted:
  "painted (drawSnake sn (Some (id_snake sn) = pid) c) = painted c @ snake_paints pid sn"
  by (simp add: drawSnake_def Let_def fold_drawSegment_painted snake_paints_def)

lemma drawSnake_text:
  "font (drawSnake sn b c) = font c"
  "textAlign (drawSnake sn b c) = textAlign c"
  "textBaseline (drawSnake sn b c) = textBaseline c"
  by (simp_all add: drawSnake_def Let_def fold_drawSegment_text)

lemma fold_drawSnake_painted:
  "painted (fold (\<lambda>sn. drawSnake sn (Some (id_snake sn) = pid)) sns c) =
     painted c @ concat (map (snake_paints pid) sns)"
  by (induction sns arbitrary: c) (simp_all add: drawSnake_painted)

lemma fold_drawSnake_text:
  "font (fold (\<lambda>sn. drawSnake sn (Some (id_snake sn) = pid)) sns c) = font c"
  "textAlign (fold (\<lambda>sn. drawSnake sn (Some (id_snake sn) = pid)) sns c) = textAlign c"
  "textBaseline (fold (\<lambda>sn. drawSnake sn (Some (id_snake sn) = pid)) sns c) = textBaseline c"
  by (induction sns arbitrary: c) (simp_all add: drawSnake_text)

lemma gridColumns_painted:
  "painted (gridColumns g i c) =
     painted c @ map (\<lambda>j. StrokePath (strokeStyle c) (lineWidth c)
                        [MoveTo (j * 12) 0, LineTo (j * 12) (CANVAS_HEIGHT g)]) [i..GAME_WIDTH g]
   \<and> fillStyle (gridColumns g i c) = fillStyle c
   \<and> strokeStyle (gridColumns g i c) = strokeStyle c
   \<and> lineWidth (gridColumns g i c) = lineWidth c
   \<and> font (gridColumns g i c) = font c
   \<and> textAlign (gridColumns g i c) = textAlign c
   \<and> textBaseline (gridColumns g i c) = textBaseline c"
proof (induction g i c rule: gridColumns.induct)
  case (1 g i c)
  show ?case
  proof (cases "i \<le> GAME_WIDTH g")
    case True
    from "1.IH" [OF True] True show ?thesis
      by (subst (1 2 3 4 5 6 7) gridColumns.simps)
         (simp add: stroke_def lineTo_def moveTo_def beginPath_def CELL_SIZE_def upto_rec1 [of i])
  next
    case False
    then show ?thesis
      by (subst (1 2 3 4 5 6 7) gridColumns.simps) simp
  qed
qed

lemma gridRows_painted:
  "painted (gridRows g i c) =
     painted c @ map (\<lambda>j. StrokePath (strokeStyle c) (lineWidth c)
                        [MoveTo 0 (j * 12), LineTo (CANVAS_WIDTH g) (j * 12)]) [i..GAME_HEIGHT g]
   \<and> fillStyle (gridRows g i c) = fillStyle c
   \<and> strokeStyle (gridRows g i c) = strokeStyle c
   \<and> lineWidth (gridRows g i c) = lineWidth c
   \<and> font (gridRows g i c) = font c
   \<and> textAlign (gridRows g i c) = textAlign c
   \<and> textBaseline (gridRows g i c) = textBaseline c"
proof (induction g i c rule: gridRows.induct)
  case (1 g i c)
  show ?case
  proof (cases "i \<le> GAME_HEIGHT g")
    case True
    from "1.IH" [OF True] True show ?thesis
      by (subst (1 2 3 4 5 6 7) gridRows.simps)
         (simp add: stroke_def lineTo_def moveTo_def beginPath_def CELL_SIZE_def upto_rec1 [of i])
  next
    case False
    then show ?thesis
      by (subst (1 2 3 4 5 6 7) gridRows.simps) simp
  qed
qed

lemma fold_drawFood:
  "painted (fold drawFood fs c) =
     painted c @ map (\<lambda>f. FillText (fillStyle c) ''bold 8px Arial'' ''center'' ''middle''
                        (FruitEmoji (type_fruit f)) (x_fruit f * 12 + 6) (y_fruit f * 12 + 6)) fs
   \<and> fillStyle (fold drawFood fs c) = fillStyle c
   \<and> textBaseline (fold drawFood fs c) = (if fs = [] then textBaseline c else ''middle'')"
  by (induction fs arbitrary: c) (simp_all add: drawFood_def Let_def fillText_def CELL_SIZE_def)

lemma drawScore_step:
  "drawScore pid sn (c, y) =
     (c\<lparr>fillStyle := (if Some (id_snake sn) = pid then COLORS_playerSnake else COLORS_otherSnake),
        painted := painted c @
          [FillText (if Some (id_snake sn) = pid then COLORS_playerSnake else COLORS_otherSnake)
             (font c) (textAlign c) (textBaseline c)
             (ScoreLine (Some (id_snake sn) = pid) (score sn) (alive sn)) 10 y]\<rparr>,
      y + 25)"
  by (simp add: drawScore_def Let_def fillText_def)

lemma fold_drawScore:
  "painted (fst (fold (drawScore pid) sns (c, y))) =
     painted c @ map (\<lambda>(i, sn). FillText (if Some (id_snake sn) = pid then COLORS_playerSnake else COLORS_otherSnake)
                        (font c) (textAlign c) (textBaseline c)
                        (ScoreLine (Some (id_snake sn) = pid) (score sn) (alive sn)) 10 (y + 25 * int i))
                 (enumerate 0 sns)"
proof (induction sns arbitrary: c y)
  case Nil
  show ?case by simp
next
  case (Cons sn sns)
  show ?case
    by (simp add: drawScore_step Cons.IH enumerate_Suc_eq [of 0] case_prod_beta algebra_simps o_def)
qed

lemma drawUI_painted:
  "painted (drawUI sns pid c) =
     painted c @ map (\<lambda>(i, sn). FillText (if Some (id_snake sn) = pid then COLORS_playerSnake else COLORS_otherSnake)
                        ''bold 14px Arial'' ''left'' (textBaseline c)
                        (ScoreLine (Some (id_snake sn) = pid) (score sn) (alive sn)) 10 (20 + 25 * int i))
                 (enumerate 0 sns)"
  by (simp add: drawUI_def fold_drawScore)

lemma draw_painted:
  "painted (draw g pid c) =
     painted c
     @ [FillRect COLORS_background 0 0 (CANVAS_WIDTH g) (CANVAS_HEIGHT g)]
     @ map (\<lambda>j. StrokePath COLORS_grid (1 / 2) [MoveTo (j * 12) 0, LineTo (j * 12) (CANVAS_HEIGHT g)])
         [0..GAME_WIDTH g]
     @ map (\<lambda>j. StrokePath COLORS_grid (1 / 2) [MoveTo 0 (j * 12), LineTo (CANVAS_WIDTH g) (j * 12)])
         [0..GAME_HEIGHT g]
     @ map (\<lambda>f. FillText COLORS_background ''bold 8px Arial'' ''center'' ''middle''
                  (FruitEmoji (type_fruit f)) (x_fruit f * 12 + 6) (y_fruit f * 12 + 6)) (food g)
     @ concat (map (snake_paints pid) (snakes g))
     @ map (\<lambda>(i, sn). FillText (if Some (id_snake sn) = pid then COLORS_playerSnake else COLORS_otherSnake)
                  ''bold 14px Arial'' ''left'' (if food g = [] then textBaseline c else ''middle'')
                  (ScoreLine (Some (id_snake sn) = pid) (score sn) (alive sn)) 10 (20 + 25 * int i))
         (enumerate 0 (snakes g))"
  by (simp add: draw_def Let_def drawUI_painted fold_drawSnake_painted fold_drawSnake_text
        fold_drawFood gridRows_painted gridColumns_painted fillRect_def)

section \<open>The claims\<close>

subsection \<open>Death revert\<close>

text \<open>
  Claim C1, as the code has it. A snapshot that shows the local player dead,
  processed at time \<open>t\<close> while the game is showing and no earlier timeout is
  pending, schedules the revert for \<open>t + 1000\<close>. Whatever snapshots arrive
  before that time, among them snapshots that show the player alive again, the
  flag stays true at every time before \<open>t + 1000\<close> and is false at
  \<open>t + 1000\<close>: nothing cancels the timeout.
\<close>

theorem death_revert_fires_after_delay:
  assumes "showGame h" and "playerId (hook h) = Some pid" and "pid \<noteq> []"
    and "list_all (\<lambda>d. t + 1000 \<le> d) (timers h)"
    and "find (\<lambda>s. Some (id_snake s) = Some pid) (snakes g) = Some sn" and "\<not> alive sn"
    and "list_all (\<lambda>(t', g'). t \<le> t' \<and> t' < t + 1000) later"
  shows "(\<forall>t' < t + 1000.
            showGame (advance t' (run (map (\<lambda>(t', g'). (t', GameStateEv g')) ((t, g) # later)) h)))
       \<and> \<not> showGame (advance (t + 1000) (run (map (\<lambda>(t', g'). (t', GameStateEv g')) ((t, g) # later)) h))"
proof -
  let ?h' = "run (map (\<lambda>(t', g'). (t', GameStateEv g')) ((t, g) # later)) h"
  have "revert_pending pid (t + 1000) (receive t (GameStateEv g) (advance t h))"
    using assms(1-6) by (rule revert_pending_start)
  moreover have "list_all (\<lambda>(t', g'). t + 1000 \<le> t' + 1000 \<and> t' < t + 1000) later"
    using assms(7) by (auto simp: list_all_iff)
  ultimately have inv: "revert_pending pid (t + 1000) ?h'"
    using revert_pending_run [of pid "t + 1000" _ later] by simp
  have "showGame (advance t' ?h')" if "t' < t + 1000" for t'
  proof -
    from inv that have "advance t' ?h' = ?h'"
      by (intro advance_idle) (auto simp: revert_pending_def list_all_iff)
    with inv show ?thesis by (simp add: revert_pending_def)
  qed
  moreover have "\<not> showGame (advance (t + 1000) ?h')"
    using inv by (intro advance_fires [of "t + 1000"]) (auto simp: revert_pending_def)
  ultimately show ?thesis by blast
qed

lemma example_playing_eq:
  "example_playing =
     \<lparr>hook = \<lparr>gameState = Some (example_snapshot True []), lobbyStatus = None, isConnected = True,
              playerId = Some ''p'', socketRef = Some \<lparr>emitted = []\<rparr>\<rparr>,
      showGame = True, lastKeyTime = 0, activeEffect = None, timers = []\<rparr>"
  by (simp add: example_playing_def example_snapshot_def example_snake_def home_initial_def
        ws_mount_def ws_initial_def receive_def advance_def deathEffect_def statusEffect_def
        statusDep_def deathDepsChanged_def falsy_def orNull_def Let_def)

theorem death_revert_fires_after_delay_witness:
  "showGame (advance 1099
      (run [(100, GameStateEv (example_snapshot False [])), (600, GameStateEv (example_snapshot True []))]
         example_playing))
   \<and> \<not> showGame (advance 1100
      (run [(100, GameStateEv (example_snapshot False [])), (600, GameStateEv (example_snapshot True []))]
         example_playing))"
  using death_revert_fires_after_delay [of example_playing "''p''" 100 "example_snapshot False []"
      "example_snake False []" "[(600, example_snapshot True [])]"]
  by (simp add: example_playing_eq) (simp add: example_snapshot_def example_snake_def)

text \<open>
  The claim as the specification words it fails: the player is dead at 100 and
  alive again at 600, yet the timeout of the first snapshot is still pending
  after the second and turns the flag off at 1100. With a second death at 700
  the flag goes off at 1100 as well, 400 ms after that death.
\<close>

theorem death_revert_cancel_counterexample:
  "timers (run [(100, GameStateEv (example_snapshot False [])), (600, GameStateEv (example_snapshot True []))]
             example_playing) = [1100]
   \<and> showGame (advance 1099
        (run [(100, GameStateEv (example_snapshot False [])), (600, GameStateEv (example_snapshot True []))]
           example_playing))
   \<and> \<not> showGame (advance 1100
        (run [(100, GameStateEv (example_snapshot False [])), (600, GameStateEv (example_snapshot True []))]
           example_playing))
   \<and> \<not> showGame (advance 1100
        (run [(100, GameStateEv (example_snapshot False [])), (600, GameStateEv (example_snapshot True [])),
              (700, GameStateEv (example_snapshot False []))]
           example_playing))"
  by (simp add: example_playing_eq)
     (simp add: example_snapshot_def example_snake_def receive_def advance_def deathEffect_def
        statusEffect_def statusDep_def deathDepsChanged_def falsy_def Let_def)

subsection \<open>Local identifier\<close>

text \<open>
  Claim C2, as the code has it. The local id is written by the connect listener
  alone, which sets it to the id of the socket (null when that is missing or
  empty) and marks the session connected. The disconnect listener only clears
  the connected flag; the local id keeps its value, as it does on every other
  event.
\<close>

theorem localId_written_on_connect_only:
  "playerId (ws_on ev w) = (case ev of Connect i \<Rightarrow> orNull i | _ \<Rightarrow> playerId w)
   \<and> isConnected (ws_on ev w) =
       (case ev of Connect i \<Rightarrow> True | Disconnect \<Rightarrow> False | _ \<Rightarrow> isConnected w)"
  by (cases ev) simp_all

theorem localId_written_on_connect_only_witness:
  "playerId (ws_on (Connect (Some ''abc'')) (ws_mount ws_initial)) = Some ''abc''
   \<and> isConnected (ws_on (Connect (Some ''abc'')) (ws_mount ws_initial))"
  using localId_written_on_connect_only [of "Connect (Some ''abc'')" "ws_mount ws_initial"]
  by (simp add: orNull_def)

text \<open>
  The claim as the specification words it fails: after a connect as
  \<open>''abc''\<close> and a disconnect the session is not connected and the local id is
  still \<open>''abc''\<close>, not null.
\<close>

theorem localId_cleared_on_disconnect_counterexample:
  "playerId (ws_run [Connect (Some ''abc''), Disconnect] (ws_mount ws_initial)) = Some ''abc''
   \<and> \<not> isConnected (ws_run [Connect (Some ''abc''), Disconnect] (ws_mount ws_initial))"
  by (simp add: ws_mount_def ws_initial_def orNull_def)

subsection \<open>Effect indicator: showing and hiding\<close>




subsection \<open>Input throttle\<close>

text \<open>
  Claim C4, as the code has it. For a key that maps to direction \<open>d\<close> and
  reaches the handler: if fewer than 50 ms have passed since the last accepted
  key the handler changes nothing, and nothing is sent; otherwise it calls
  \<open>sendMove d\<close> once and stores the time of the event as the last accepted
  one. That call hands exactly one \<open>move\<close> message to the socket when the
  session is connected, and none when it is not.
\<close>

theorem key_throttle:
  assumes "keyDirection (toLowerCase key) = Some d"
  shows "handleKeyDown now key p =
           (if now - lastKeyTime p < 50 then p
            else p\<lparr>hook := sendMove d (hook p), lastKeyTime := now\<rparr>)
       \<and> outbox (hook (handleKeyDown now key p)) =
           (if now - lastKeyTime p < 50 then outbox (hook p)
            else if socketRef (hook p) \<noteq> None \<and> isConnected (hook p) then outbox (hook p) @ [Move d]
            else outbox (hook p))
       \<and> lastKeyTime (handleKeyDown now key p) =
           (if now - lastKeyTime p < 50 then lastKeyTime p else now)"
  using assms
  by (auto simp: handleKeyDown_def sendMove_def socket_emit_def outbox_def split: option.splits)

lemma key_w_up: "keyDirection (toLowerCase ''W'') = Some \<lparr>dx = 0, dy = - 1\<rparr>"
  by code_simp

lemma example_page_fields:
  "socketRef (hook example_page) \<noteq> None" "isConnected (hook example_page)"
  "outbox (hook example_page) = []" "lastKeyTime example_page = 1000"
  by (simp_all add: example_page_def ws_mount_def ws_initial_def outbox_def)

theorem key_throttle_witness:
  "keyDirection (toLowerCase ''W'') = Some \<lparr>dx = 0, dy = - 1\<rparr>
   \<and> outbox (hook (handleKeyDown 1030 ''W'' example_page)) = []
   \<and> lastKeyTime (handleKeyDown 1030 ''W'' example_page) = 1000
   \<and> outbox (hook (handleKeyDown 1060 ''W'' example_page)) = [Move \<lparr>dx = 0, dy = - 1\<rparr>]
   \<and> lastKeyTime (handleKeyDown 1060 ''W'' example_page) = 1060"
  using key_throttle [OF key_w_up, of 1030 example_page, THEN conjunct2]
    key_throttle [OF key_w_up, of 1060 example_page, THEN conjunct2]
  by (simp add: key_w_up example_page_fields)

text \<open>
  The claim as the specification words it fails: the game is showing, the
  socket disconnects at 2000, and the key \<open>d\<close> is pressed at 2000, far more
  than 50 ms after the last accepted key. No \<open>move\<close> message is sent, and the
  time of the key is stored as the last accepted one all the same.
\<close>

lemma key_d_right: "keyDirection (toLowerCase ''d'') = Some \<lparr>dx = 1, dy = 0\<rparr>"
  by code_simp

theorem key_throttle_disconnected_counterexample:
  "showGame (run [(2000, Disconnect)] example_playing)
   \<and> \<not> isConnected (hook (run [(2000, Disconnect)] example_playing))
   \<and> keyDirection (toLowerCase ''d'') = Some \<lparr>dx = 1, dy = 0\<rparr>
   \<and> \<not> 2000 - lastKeyTime (run [(2000, Disconnect)] example_playing) < 50
   \<and> outbox (hook (handleKeyDown 2000 ''d'' (run [(2000, Disconnect)] example_playing))) = []
   \<and> lastKeyTime (handleKeyDown 2000 ''d'' (run [(2000, Disconnect)] example_playing)) = 2000"
  by (simp add: example_playing_eq key_d_right)
     (simp add: receive_def advance_def deathEffect_def statusEffect_def statusDep_def
        deathDepsChanged_def falsy_def Let_def handleKeyDown_def key_d_right sendMove_def outbox_def)

subsection \<open>Sending while disconnected\<close>

text \<open>
  Claim C5. While the session is not connected \<open>sendMove\<close> returns the state it
  was given: nothing is handed to the socket and nothing is stored. No later
  event of the hook, a reconnect included, makes the socket send it: the
  messages emitted after any sequence of events are those emitted before the
  call.
\<close>

theorem sendMove_disconnected_noop:
  "\<not> isConnected w \<Longrightarrow> sendMove d w = w \<and> outbox (ws_run es (sendMove d w)) = outbox w"
  by (simp add: sendMove_def outbox_ws_run split: option.splits)

theorem sendMove_disconnected_noop_witness:
  "\<not> isConnected (ws_mount ws_initial)
   \<and> sendMove \<lparr>dx = 1, dy = 0\<rparr> (ws_mount ws_initial) = ws_mount ws_initial
   \<and> outbox (ws_run [Connect (Some ''abc'')] (sendMove \<lparr>dx = 1, dy = 0\<rparr> (ws_mount ws_initial))) = []"
  using sendMove_disconnected_noop [of "ws_mount ws_initial" "\<lparr>dx = 1, dy = 0\<rparr>" "[Connect (Some ''abc'')]"]
  by (simp add: ws_mount_def ws_initial_def outbox_def)

subsection \<open>Effect selection\<close>

text \<open>
  Claim C6, as the code has it. After a snapshot has been processed with the
  game showing and a local id set, the active effect is the first effect of
  the first snake whose id is the local id, if that snake is there, alive and
  has an effect, and null otherwise. When the game is not showing or no local
  id is set, the active effect keeps the value it had.
\<close>

theorem activeEffect_after_snapshot:
  "activeEffect (receive now (GameStateEv g) h) =
     (if showGame (receive now (GameStateEv g) h) \<and> \<not> falsy (playerId (hook h))
      then (case find (\<lambda>s. Some (id_snake s) = playerId (hook h)) (snakes g) of
              None \<Rightarrow> None
            | Some s \<Rightarrow> if alive s \<and> activeEffects s \<noteq> [] then Some (hd (activeEffects s)) else None)
      else activeEffect h)"
  by (rule receive_activeEffect_snapshot)

theorem activeEffect_after_snapshot_witness:
  "activeEffect (receive 100 (GameStateEv (example_snapshot True [example_boost])) example_playing)
     = Some example_boost"
  using activeEffect_after_snapshot [of 100 "example_snapshot True [example_boost]" example_playing]
  by (simp add: receive_showGame example_playing_eq falsy_def)
     (simp add: example_snapshot_def example_snake_def)

text \<open>
  The claim as the specification words it fails: the player dies at 100, is
  alive with a boost at 600, and the timeout of the death hides the game at
  1100. The snapshot of 1200 shows the player alive without any effect, and
  the active effect is still the boost.
\<close>

theorem activeEffect_stale_counterexample:
  "activeEffect
     (run [(100, GameStateEv (example_snapshot False [])),
           (600, GameStateEv (example_snapshot True [example_boost])),
           (1200, GameStateEv (example_snapshot True []))] example_playing)
   = Some example_boost"
  by (simp add: example_playing_eq)
     (simp add: example_snapshot_def example_snake_def receive_def advance_def deathEffect_def
        statusEffect_def statusDep_def deathDepsChanged_def falsy_def Let_def)

subsection \<open>Countdown\<close>

text \<open>
  Claim C7, as the code has it. A tick at time \<open>now\<close> of the interval of an
  effect that expires at \<open>endTime\<close> sets the remaining value to
  \<open>ceil (max 0 (endTime - now) / 1000)\<close> seconds. The indicator shows that
  value, and as percentage that value divided by 10 and then multiplied by
  100, each of the two operations rounded to the nearest double; the duration
  the effect was granted with is no input of either. The percentage is within
  a relative error of \<open>2^-51\<close> of the exact quotient times 100, and need not
  be equal to it. When the remaining value is 0 the indicator renders nothing.
\<close>

theorem countdown_tick:
  assumes "effect st = Some e" and "interval st"
  shows "timeLeft (updateTimer now st) = \<lceil>(of_int (max 0 (endTime e - now)) :: rat) / 1000\<rceil>
     \<and> map_option seconds (render_indicator (updateTimer now st)) =
         (if endTime e \<le> now then None
          else Some \<lceil>(of_int (max 0 (endTime e - now)) :: rat) / 1000\<rceil>)
     \<and> map_option percentage (render_indicator (updateTimer now st)) =
         (if endTime e \<le> now then None
          else Some (toDouble (toDouble
                 (of_int \<lceil>(of_int (max 0 (endTime e - now)) :: rat) / 1000\<rceil> / 10) * 100)))
     \<and> (\<forall>p. map_option percentage (render_indicator (updateTimer now st)) = Some p \<longrightarrow>
           \<bar>p - of_int \<lceil>(of_int (max 0 (endTime e - now)) :: rat) / 1000\<rceil> / 10 * 100\<bar>
             \<le> of_int \<lceil>(of_int (max 0 (endTime e - now)) :: rat) / 1000\<rceil> / 10 * 100 / 2 ^ 51)"
proof -
  let ?s = "\<lceil>(of_int (max 0 (endTime e - now)) :: rat) / 1000\<rceil>"
  have pos: "0 < ?s \<longleftrightarrow> now < endTime e"
    by (rule remaining_seconds_pos)
  have tl: "timeLeft (updateTimer now st) = ?s"
    using assms by (simp add: updateTimer_def Let_def)
  have ef: "effect (updateTimer now st) = Some e"
    using assms by (simp add: updateTimer_def Let_def)
  have sec: "map_option seconds (render_indicator (updateTimer now st)) =
      (if endTime e \<le> now then None else Some ?s)"
    using pos by (auto simp: render_indicator_def tl ef not_le)
  have per: "map_option percentage (render_indicator (updateTimer now st)) =
      (if endTime e \<le> now then None else Some (toDouble (toDouble (of_int ?s / 10) * 100)))"
    using pos by (auto simp: render_indicator_def tl ef not_le)
  have "\<bar>toDouble (toDouble (of_int ?s / 10) * 100) - of_int ?s / 10 * 100\<bar>
      \<le> of_int ?s / 10 * 100 / 2 ^ 51" if "now < endTime e"
    by (rule percentage_err) (use pos that in simp)
  then have err: "\<forall>p. map_option percentage (render_indicator (updateTimer now st)) = Some p \<longrightarrow>
      \<bar>p - of_int ?s / 10 * 100\<bar> \<le> of_int ?s / 10 * 100 / 2 ^ 51"
    unfolding per by (auto simp: not_le)
  from tl sec per err show ?thesis
    by (intro conjI)
qed

lemma example_ceiling: "\<lceil>(of_int (max 0 (5000 - 800)) :: rat) / 1000\<rceil> = 5"
  by code_simp

lemma example_percentage: "toDouble (toDouble (of_int 5 / 10) * 100) = 50"
  by code_simp

theorem countdown_tick_witness:
  "effect (setEffect (Some example_boost) (indicator_initial None)) = Some example_boost
   \<and> interval (setEffect (Some example_boost) (indicator_initial None))
   \<and> timeLeft (updateTimer 800 (setEffect (Some example_boost) (indicator_initial None))) = 5
   \<and> map_option seconds
        (render_indicator (updateTimer 800 (setEffect (Some example_boost) (indicator_initial None))))
       = Some 5
   \<and> map_option percentage
        (render_indicator (updateTimer 800 (setEffect (Some example_boost) (indicator_initial None))))
       = Some 50"
proof -
  have h: "effect (setEffect (Some example_boost) (indicator_initial None)) = Some example_boost"
    "interval (setEffect (Some example_boost) (indicator_initial None))"
    by (simp_all add: setEffect_def indicator_initial_def)
  have e: "endTime example_boost = 5000"
    by (simp add: example_boost_def)
  from countdown_tick [OF h, of 800]
  have "timeLeft (updateTimer 800 (setEffect (Some example_boost) (indicator_initial None))) = 5"
    and "map_option seconds
        (render_indicator (updateTimer 800 (setEffect (Some example_boost) (indicator_initial None))))
       = Some 5"
    and "map_option percentage
        (render_indicator (updateTimer 800 (setEffect (Some example_boost) (indicator_initial None))))
       = Some (toDouble (toDouble (of_int 5 / 10) * 100))"
    unfolding e example_ceiling by simp_all
  then show ?thesis
    using h by (simp only: example_percentage simp_thms)
qed

text \<open>
  The claim as the specification words it fails: with 11 seconds left the
  indicator shows 11 and, as percentage, the double next above 110, which the
  page prints as 110.00000000000001, while 11 divided by 10 times 100 is 110.
\<close>

theorem countdown_percentage_counterexample:
  "map_option seconds
     (render_indicator (updateTimer 0
        (setEffect (Some \<lparr>type_effect = speedBoost, endTime = 11000\<rparr>) (indicator_initial None))))
     = Some 11
   \<and> map_option percentage
     (render_indicator (updateTimer 0
        (setEffect (Some \<lparr>type_effect = speedBoost, endTime = 11000\<rparr>) (indicator_initial None))))
     = Some (110 + 1 / 2 ^ 46)
   \<and> (110 + 1 / 2 ^ 46 :: rat) \<noteq> 11 / 10 * 100"
  by code_simp

subsection \<open>Snake colours and head outline\<close>

text \<open>
  Claim C8. Drawing a snake adds to the canvas, for each body segment in order,
  a filled square whose colour is the dead colour when the snake is not alive,
  whatever its id, the own-player colour when it is alive and its id is the
  local id, and the other-player colour when it is alive with another id. The
  segment of index 0 of a living snake is followed by an outlined square on
  the same cell; no other segment, and no segment of a dead snake, gets one.
\<close>

theorem snake_colour_and_outline:
  "painted (drawSnake sn (Some (id_snake sn) = localId) c) =
     painted c @
     concat (map (\<lambda>(index, segment).
         FillRect (if \<not> alive sn then COLORS_dead
                   else if Some (id_snake sn) = localId then COLORS_playerSnake
                   else COLORS_otherSnake)
             (x_seg segment * 12 + 1) (y_seg segment * 12 + 1) 10 10
           # (if index = 0 \<and> alive sn
              then [StrokeRect ''rgba(0,0,0,0.3)'' 2 (x_seg segment * 12 + 1) (y_seg segment * 12 + 1) 10 10]
              else []))
       (enumerate 0 (body sn)))"
  using drawSnake_painted [of sn localId c] by (simp only: snake_paints_def)

theorem snake_colour_and_outline_witness:
  "painted (drawSnake (example_snake False []) (Some (id_snake (example_snake False [])) = Some ''p'') example_ctx)
     = [FillRect ''#666'' 37 49 10 10]
   \<and> painted (drawSnake (example_snake True []) (Some (id_snake (example_snake True [])) = Some ''p'') example_ctx)
     = [FillRect ''#4CAF50'' 37 49 10 10, StrokeRect ''rgba(0,0,0,0.3)'' 2 37 49 10 10]
   \<and> painted (drawSnake (example_snake True []) (Some (id_snake (example_snake True [])) = Some ''q'') example_ctx)
     = [FillRect ''#2196F3'' 37 49 10 10, StrokeRect ''rgba(0,0,0,0.3)'' 2 37 49 10 10]"
  using snake_colour_and_outline [of "example_snake False []" "Some ''p''" example_ctx]
    snake_colour_and_outline [of "example_snake True []" "Some ''p''" example_ctx]
    snake_colour_and_outline [of "example_snake True []" "Some ''q''" example_ctx]
  by (simp add: example_snake_def example_ctx_def COLORS_dead_def COLORS_playerSnake_def
        COLORS_otherSnake_def enumerate_eq_zip)

subsection \<open>Draw order\<close>

text \<open>
  Claim C9. With a canvas, a context and a snapshot, one run of the render
  effect adds to what the canvas already shows, in this order: the background
  rectangle over the whole canvas; the grid, one vertical line per column
  index \<open>0..GAME_WIDTH\<close> and then one horizontal line per row index
  \<open>0..GAME_HEIGHT\<close>, 12 pixels apart; one emoji per fruit, in the order of the
  snapshot; the squares of each snake, in the order of the snapshot; one score
  line per snake, in the order of the snapshot, 25 pixels apart.
\<close>

theorem render_draw_order:
  assumes "getContext cv = Some c"
  shows "\<exists>c'. render (Some cv) (Some g) pid = Some (cv\<lparr>getContext := Some c'\<rparr>)
     \<and> painted c' =
       painted c
       @ [FillRect COLORS_background 0 0 (CANVAS_WIDTH g) (CANVAS_HEIGHT g)]
       @ map (\<lambda>j. StrokePath COLORS_grid (1 / 2) [MoveTo (j * 12) 0, LineTo (j * 12) (CANVAS_HEIGHT g)])
           [0..GAME_WIDTH g]
       @ map (\<lambda>j. StrokePath COLORS_grid (1 / 2) [MoveTo 0 (j * 12), LineTo (CANVAS_WIDTH g) (j * 12)])
           [0..GAME_HEIGHT g]
       @ map (\<lambda>f. FillText COLORS_background ''bold 8px Arial'' ''center'' ''middle''
                    (FruitEmoji (type_fruit f)) (x_fruit f * 12 + 6) (y_fruit f * 12 + 6)) (food g)
       @ concat (map (snake_paints pid) (snakes g))
       @ map (\<lambda>(i, sn). FillText (if Some (id_snake sn) = pid then COLORS_playerSnake else COLORS_otherSnake)
                    ''bold 14px Arial'' ''left'' (if food g = [] then textBaseline c else ''middle'')
                    (ScoreLine (Some (id_snake sn) = pid) (score sn) (alive sn)) 10 (20 + 25 * int i))
           (enumerate 0 (snakes g))"
proof -
  have "render (Some cv) (Some g) pid = Some (cv\<lparr>getContext := Some (draw g pid c)\<rparr>)"
    using assms by (simp add: render_def)
  then show ?thesis
    using draw_painted [of g pid c] by blast
qed

theorem render_draw_order_witness:
  "map_option (\<lambda>cv. map_option painted (getContext cv))
     (render (Some \<lparr>getContext = Some example_ctx\<rparr>) (Some (example_snapshot True [])) (Some ''p''))
   = Some (Some
      [FillRect ''#1a1a1a'' 0 0 12 12,
       StrokePath ''#444'' (1 / 2) [MoveTo 0 0, LineTo 0 12],
       StrokePath ''#444'' (1 / 2) [MoveTo 12 0, LineTo 12 12],
       StrokePath ''#444'' (1 / 2) [MoveTo 0 0, LineTo 12 0],
       StrokePath ''#444'' (1 / 2) [MoveTo 0 12, LineTo 12 12],
       FillText ''#1a1a1a'' ''bold 8px Arial'' ''center'' ''middle'' (FruitEmoji mango) 6 18,
       FillRect ''#4CAF50'' 37 49 10 10,
       StrokeRect ''rgba(0,0,0,0.3)'' 2 37 49 10 10,
       FillText ''#4CAF50'' ''bold 14px Arial'' ''left'' ''middle'' (ScoreLine True 7 True) 10 20])"
proof -
  have h: "getContext \<lparr>getContext = Some example_ctx\<rparr> = Some example_ctx"
    by simp
  have up: "[0..1::int] = [0, 1]"
    by (simp add: upto_rec1)
  from render_draw_order [OF h, of "example_snapshot True []" "Some ''p''"]
  obtain c' where r: "render (Some \<lparr>getContext = Some example_ctx\<rparr>) (Some (example_snapshot True []))
        (Some ''p'') = Some (\<lparr>getContext = Some example_ctx\<rparr>\<lparr>getContext := Some c'\<rparr>)"
    and p: "painted c' =
       painted example_ctx
       @ [FillRect COLORS_background 0 0 (CANVAS_WIDTH (example_snapshot True []))
            (CANVAS_HEIGHT (example_snapshot True []))]
       @ map (\<lambda>j. StrokePath COLORS_grid (1 / 2)
                [MoveTo (j * 12) 0, LineTo (j * 12) (CANVAS_HEIGHT (example_snapshot True []))])
           [0..GAME_WIDTH (example_snapshot True [])]
       @ map (\<lambda>j. StrokePath COLORS_grid (1 / 2)
                [MoveTo 0 (j * 12), LineTo (CANVAS_WIDTH (example_snapshot True [])) (j * 12)])
           [0..GAME_HEIGHT (example_snapshot True [])]
       @ map (\<lambda>f. FillText COLORS_background ''bold 8px Arial'' ''center'' ''middle''
                    (FruitEmoji (type_fruit f)) (x_fruit f * 12 + 6) (y_fruit f * 12 + 6))
           (food (example_snapshot True []))
       @ concat (map (snake_paints (Some ''p'')) (snakes (example_snapshot True [])))
       @ map (\<lambda>(i, sn). FillText (if Some (id_snake sn) = Some ''p'' then COLORS_playerSnake else COLORS_otherSnake)
                    ''bold 14px Arial'' ''left''
                    (if food (example_snapshot True []) = [] then textBaseline example_ctx else ''middle'')
                    (ScoreLine (Some (id_snake sn) = Some ''p'') (score sn) (alive sn)) 10 (20 + 25 * int i))
           (enumerate 0 (snakes (example_snapshot True [])))"
    by blast
  show ?thesis
    unfolding r
    by (simp add: p up example_snapshot_def example_snake_def example_ctx_def snake_paints_def
          GAME_WIDTH_def GAME_HEIGHT_def CANVAS_WIDTH_def CANVAS_HEIGHT_def CELL_SIZE_def
          COLORS_background_def COLORS_grid_def COLORS_playerSnake_def enumerate_eq_zip)
qed

subsection \<open>Render guard\<close>

text \<open>
  Claim C10. Without a snapshot, without a canvas element, or when the canvas
  gives no 2D context, the render effect returns with the canvas as it was:
  nothing is painted, no style is changed, and no branch of the effect raises.
\<close>

theorem render_guard:
  "canvasRef = None \<or> gs = None \<or> (\<exists>cv. canvasRef = Some cv \<and> getContext cv = None)
   \<Longrightarrow> render canvasRef gs pid = canvasRef"
  by (auto simp: render_def split: option.splits)

theorem render_guard_witness:
  "render (Some \<lparr>getContext = Some example_ctx\<rparr>) None (Some ''p'') = Some \<lparr>getContext = Some example_ctx\<rparr>
   \<and> render (Some \<lparr>getContext = None\<rparr>) (Some (example_snapshot True [])) (Some ''p'')
       = Some \<lparr>getContext = None\<rparr>
   \<and> render None (Some (example_snapshot True [])) (Some ''p'') = None"
  using render_guard [of "Some \<lparr>getContext = Some example_ctx\<rparr>" None "Some ''p''"]
    render_guard [of "Some \<lparr>getContext = None\<rparr>" "Some (example_snapshot True [])" "Some ''p''"]
    render_guard [of None "Some (example_snapshot True [])" "Some ''p''"]
  by simp

end
